theory Spec2Isabelle
  imports Complex_Main "HOL-Library.Word"
begin

section \<open>The OpenRouter content generator\<close>

text \<open>
  A shallow embedding of \<^verbatim>\<open>packages/core/src/core/openRouterContentGenerator.ts\<close>:
  the class \<^verbatim>\<open>OpenRouterContentGenerator\<close> with its four public operations
  (\<^verbatim>\<open>generateContent\<close>, \<^verbatim>\<open>generateContentStream\<close>, \<^verbatim>\<open>countTokens\<close>,
  \<^verbatim>\<open>embedContent\<close>) and its two private translators.

  A JavaScript string is a \<open>string\<close>: one list element per code unit, so
  \<^verbatim>\<open>s.length\<close> is \<open>length s\<close>; the code units are those a \<open>char\<close> holds, the
  first 256. A rejected promise or a thrown exception is the
  \<open>Inl\<close> branch of a sum. The platform functions the class calls but does not define
  (\<^verbatim>\<open>fetch\<close>, \<^verbatim>\<open>JSON.parse\<close>, \<^verbatim>\<open>TextDecoder\<close>) are parameters of the
  operations that call them.
\<close>

subsection \<open>Schema A: the caller's content values\<close>

text \<open>
  A \<^verbatim>\<open>Part\<close> is an object; the code asks of it only \<^verbatim>\<open>'text' in p\<close> and
  \<^verbatim>\<open>p.text\<close>. The three shapes that these two expressions can tell apart:
\<close>

datatype part =
    TextPart string   \<comment> \<open>\<^verbatim>\<open>{ text: '...' }\<close>\<close>
  | UndefTextPart     \<comment> \<open>the key \<^verbatim>\<open>text\<close> is there, its value is \<^verbatim>\<open>undefined\<close>\<close>
  | NonTextPart       \<comment> \<open>no key \<^verbatim>\<open>text\<close>: inline data, a function call, ...\<close>

fun text_in :: "part \<Rightarrow> bool" where
  "text_in (TextPart s) = True"
| "text_in UndefTextPart = True"
| "text_in NonTextPart = False"

fun p_text :: "part \<Rightarrow> string option" where
  "p_text (TextPart s) = Some s"
| "p_text UndefTextPart = None"
| "p_text NonTextPart = None"

text \<open>
  \<^verbatim>\<open>Content\<close> (a Turn): \<^verbatim>\<open>{ parts?: Part[]; role?: string }\<close>. An absent field is
  \<open>None\<close>.
\<close>

record content =
  c_parts :: "part list option"
  c_role :: "string option"

text \<open>
  The value of \<^verbatim>\<open>request.contents\<close>: a string, an array of \<^verbatim>\<open>Content\<close> (the type the
  code gives to the elements it maps over), or a value that is neither, such as one
  \<^verbatim>\<open>Content\<close> or one \<^verbatim>\<open>Part\<close> object outside any array.
\<close>

datatype contents =
    CString string
  | CArray "content list"
  | CContent content
  | CPart part

fun is_string :: "contents \<Rightarrow> bool" where
  "is_string (CString s) = True"
| "is_string c = False"

fun is_array :: "contents \<Rightarrow> bool" where
  "is_array (CArray cs) = True"
| "is_array c = False"

subsection \<open>Schema B: chat messages\<close>

record chat_message =
  m_role :: string
  m_content :: string

text \<open>Truthiness of a possibly absent string: \<^verbatim>\<open>undefined\<close> and \<^verbatim>\<open>''\<close> are falsy.\<close>

fun truthy_str :: "string option \<Rightarrow> bool" where
  "truthy_str None = False"
| "truthy_str (Some s) = (s \<noteq> [])"

text \<open>\<^verbatim>\<open>xs.join('')\<close> on an array of optional strings: \<^verbatim>\<open>undefined\<close> joins as \<^verbatim>\<open>''\<close>.\<close>

fun join_empty :: "string option list \<Rightarrow> string" where
  "join_empty [] = []"
| "join_empty (None # xs) = join_empty xs"
| "join_empty (Some s # xs) = s @ join_empty xs"

text \<open>
  \<^verbatim>\<open>convertContentsToMessages\<close>. In the array branch, per element:
  \<^verbatim>\<open>let role = content.role === 'model' ? 'assistant' : content.role;
  if (!role) role = 'user';\<close> and the text of the parts, filtered by
  \<^verbatim>\<open>'text' in p && p.text\<close>, mapped by \<^verbatim>\<open>'text' in p ? p.text : ''\<close>, joined.
\<close>

definition message_role :: "string option \<Rightarrow> string" where
  "message_role r =
     (let role = (if r = Some ''model'' then Some ''assistant'' else r)
      in case role of
           None \<Rightarrow> ''user''
         | Some s \<Rightarrow> if \<not> truthy_str (Some s) then ''user'' else s)"

definition text_parts :: "part list \<Rightarrow> string" where
  "text_parts parts =
     join_empty
       (map (\<lambda>p. if text_in p then p_text p else Some [])
          (filter (\<lambda>p. text_in p \<and> truthy_str (p_text p)) parts))"

definition content_to_message :: "content \<Rightarrow> chat_message" where
  "content_to_message c =
     (let role = message_role (c_role c);
          parts = (case c_parts c of None \<Rightarrow> [] | Some ps \<Rightarrow> ps)
      in \<lparr>m_role = role, m_content = text_parts parts\<rparr>)"

definition convertContentsToMessages :: "contents \<Rightarrow> chat_message list" where
  "convertContentsToMessages cts =
     (case cts of
        CString s \<Rightarrow> [\<lparr>m_role = ''user'', m_content = s\<rparr>]
      | CArray cs \<Rightarrow> map content_to_message cs
      | _ \<Rightarrow> [])"

subsection \<open>JavaScript values read from JSON\<close>

text \<open>
  What \<^verbatim>\<open>JSON.parse\<close> returns, and \<^verbatim>\<open>undefined\<close>, which reading an absent
  property gives. An object is the list of its members. A number carries its value as a
  rational: the code only tests numbers for truthiness and hands them on.
\<close>

datatype js =
    JUndefined
  | JNull
  | JBool bool
  | JNum rat
  | JStr string
  | JArr "js list"
  | JObj "(string \<times> js) list"

datatype error =
    Error string   \<comment> \<open>\<^verbatim>\<open>new Error(message)\<close>\<close>
  | TypeError      \<comment> \<open>reading a property of \<^verbatim>\<open>undefined\<close> or \<^verbatim>\<open>null\<close>\<close>
  | SyntaxError    \<comment> \<open>\<^verbatim>\<open>JSON.parse\<close> on text that is not JSON\<close>

fun nullish :: "js \<Rightarrow> bool" where
  "nullish JUndefined = True"
| "nullish JNull = True"
| "nullish v = False"

fun truthy :: "js \<Rightarrow> bool" where
  "truthy JUndefined = False"
| "truthy JNull = False"
| "truthy (JBool b) = b"
| "truthy (JNum n) = (n \<noteq> 0)"
| "truthy (JStr s) = (s \<noteq> [])"
| "truthy (JArr xs) = True"
| "truthy (JObj kvs) = True"

text \<open>
  \<open>lookup v k\<close> is \<^verbatim>\<open>v.k\<close> for a \<open>v\<close> that is neither \<^verbatim>\<open>undefined\<close> nor
  \<^verbatim>\<open>null\<close>, for the names the code reads (\<^verbatim>\<open>choices\<close>, \<^verbatim>\<open>message\<close>,
  \<^verbatim>\<open>delta\<close>, \<^verbatim>\<open>content\<close>, \<^verbatim>\<open>finish_reason\<close>): none of them is a property of
  arrays, strings, numbers or booleans, so only an object can have one.
\<close>

fun lookup :: "js \<Rightarrow> string \<Rightarrow> js" where
  "lookup (JObj kvs) k = (case map_of kvs k of None \<Rightarrow> JUndefined | Some v \<Rightarrow> v)"
| "lookup v k = JUndefined"

text \<open>\<^verbatim>\<open>v.k\<close> throws a TypeError on \<^verbatim>\<open>undefined\<close> and \<^verbatim>\<open>null\<close>; \<^verbatim>\<open>v?.k\<close> is
  \<^verbatim>\<open>undefined\<close> there.\<close>

definition member :: "js \<Rightarrow> string \<Rightarrow> error + js" where
  "member v k = (if nullish v then Inl TypeError else Inr (lookup v k))"

definition opt_member :: "js \<Rightarrow> string \<Rightarrow> js" where
  "opt_member v k = (if nullish v then JUndefined else lookup v k)"

text \<open>
  \<^verbatim>\<open>v[0]\<close>: the first element of an array, the first code unit of a string, the
  member \<^verbatim>\<open>"0"\<close> of an object, \<^verbatim>\<open>undefined\<close> on a number or a boolean, a TypeError
  on \<^verbatim>\<open>undefined\<close> and \<^verbatim>\<open>null\<close>.
\<close>

fun index0 :: "js \<Rightarrow> error + js" where
  "index0 JUndefined = Inl TypeError"
| "index0 JNull = Inl TypeError"
| "index0 (JArr []) = Inr JUndefined"
| "index0 (JArr (x # xs)) = Inr x"
| "index0 (JStr []) = Inr JUndefined"
| "index0 (JStr (c # cs)) = Inr (JStr [c])"
| "index0 (JObj kvs) = Inr (lookup (JObj kvs) ''0'')"
| "index0 (JBool b) = Inr JUndefined"
| "index0 (JNum n) = Inr JUndefined"

text \<open>\<^verbatim>\<open>data.choices[0]\<close>, the expression both translators start from.\<close>

definition first_choice :: "js \<Rightarrow> error + js" where
  "first_choice data =
     (case member data ''choices'' of
        Inl e \<Rightarrow> Inl e
      | Inr choices \<Rightarrow> index0 choices)"

text \<open>\<^verbatim>\<open>a || b\<close>\<close>

definition or_else :: "js \<Rightarrow> js \<Rightarrow> js" where
  "or_else a b = (if truthy a then a else b)"

subsection \<open>Schema A: responses\<close>

text \<open>
  A candidate \<^verbatim>\<open>{ content: { parts: [{ text }, ...], role }, finishReason, index }\<close>;
  \<open>cand_parts\<close> lists the \<^verbatim>\<open>text\<close> of each part. A response
  \<^verbatim>\<open>{ candidates, text, functionCalls, data }\<close>; the streamed responses have no
  \<^verbatim>\<open>index\<close>, \<^verbatim>\<open>functionCalls\<close> and \<^verbatim>\<open>data\<close>. \<open>r_functionCalls\<close> is what calling
  \<^verbatim>\<open>functionCalls\<close> returns. The two fields the code sets to \<^verbatim>\<open>undefined\<close>
  (\<^verbatim>\<open>executableCode\<close>, \<^verbatim>\<open>codeExecutionResult\<close>) read as \<^verbatim>\<open>undefined\<close> whether set
  or not and have no field here.
\<close>

record candidate =
  cand_parts :: "js list"
  cand_role :: string
  finishReason :: js
  cand_index :: "nat option"

record response =
  candidates :: "candidate list"
  r_text :: js
  r_functionCalls :: "js list option"
  r_data :: "js option"

definition convertOpenAIResponseToGemini :: "js \<Rightarrow> error + response" where
  "convertOpenAIResponseToGemini data =
     (case first_choice data of
        Inl e \<Rightarrow> Inl e
      | Inr choice \<Rightarrow>
          (let content = or_else (opt_member (opt_member choice ''message'') ''content'') (JStr [])
           in Inr \<lparr>candidates =
                     [\<lparr>cand_parts = [content], cand_role = ''model'',
                       finishReason = opt_member choice ''finish_reason'',
                       cand_index = Some 0\<rparr>],
                   r_text = content,
                   r_functionCalls = Some [],
                   r_data = Some data\<rparr>))"

subsection \<open>String operations of the platform\<close>

text \<open>
  \<^verbatim>\<open>s.split(sep)\<close> for a one-character separator: the pieces between the
  separators, always at least one piece (\<^verbatim>\<open>''.split('\n')\<close> is \<^verbatim>\<open>['']\<close>).
\<close>

fun split_on :: "char \<Rightarrow> string \<Rightarrow> string list" where
  "split_on sep [] = [[]]"
| "split_on sep (c # cs) =
     (if c = sep then [] # split_on sep cs
      else (case split_on sep cs of
              [] \<Rightarrow> [[c]]
            | l # ls \<Rightarrow> (c # l) # ls))"

text \<open>
  \<^verbatim>\<open>s.trim()\<close> removes white space and line terminators from both ends. Of the
  code units a \<open>char\<close> can hold these are TAB, LF, VT, FF, CR, SPACE and NBSP.
\<close>

definition is_space :: "char \<Rightarrow> bool" where
  "is_space c =
     (c = CHR 0x09 \<or> c = CHR 0x0A \<or> c = CHR 0x0B \<or> c = CHR 0x0C \<or> c = CHR 0x0D \<or>
      c = CHR 0x20 \<or> c = CHR 0xA0)"

definition trim :: "string \<Rightarrow> string" where
  "trim s = rev (dropWhile is_space (rev (dropWhile is_space s)))"

text \<open>\<^verbatim>\<open>s.startsWith(p)\<close>; \<^verbatim>\<open>s.slice(n)\<close> for \<open>n \<ge> 0\<close> is \<open>drop n s\<close>.\<close>

definition startsWith :: "string \<Rightarrow> string \<Rightarrow> bool" where
  "startsWith s p = (take (length p) s = p)"

text \<open>
  \<^verbatim>\<open>new TextDecoder()\<close> and \<^verbatim>\<open>decoder.decode(value, { stream: true })\<close>. The
  Encoding standard has a streaming decoder push the bytes of \<open>value\<close> one after the
  other through the handler of the encoding, which keeps its state (the bytes of an
  unfinished sequence, whether the byte order mark was seen) from one call to the next
  and is never flushed here. The handler \<open>h\<close> is a parameter: any function from a state
  and a byte to the next state and the code units that byte completes.
\<close>

type_synonym byte = "8 word"

type_synonym 'd handler = "'d \<Rightarrow> byte \<Rightarrow> 'd \<times> string"

fun decode :: "'d handler \<Rightarrow> 'd \<Rightarrow> byte list \<Rightarrow> 'd \<times> string" where
  "decode h d [] = (d, [])"
| "decode h d (b # bs) =
     (case h d b of (d1, s1) \<Rightarrow>
        (case decode h d1 bs of (d2, s2) \<Rightarrow> (d2, s1 @ s2)))"

subsection \<open>The streaming decoder\<close>

text \<open>
  \<^verbatim>\<open>JSON.parse\<close> is the parameter \<open>parse\<close>: \<open>None\<close> where it throws its SyntaxError.
  The body of the \<^verbatim>\<open>try\<close> for one event line, given the text after the prefix: both
  the SyntaxError of \<^verbatim>\<open>JSON.parse\<close> and the TypeError of \<^verbatim>\<open>data.choices[0]\<close> end in
  the empty \<^verbatim>\<open>catch\<close>, where nothing is yielded.
\<close>

type_synonym parser = "string \<Rightarrow> js option"

definition frame :: "parser \<Rightarrow> string \<Rightarrow> response option" where
  "frame parse payload =
     (case parse payload of
        None \<Rightarrow> None
      | Some data \<Rightarrow>
          (case first_choice data of
             Inl e \<Rightarrow> None
           | Inr choice \<Rightarrow>
               (let content = opt_member (opt_member choice ''delta'') ''content''
                in if truthy content
                   then Some \<lparr>candidates =
                                [\<lparr>cand_parts = [content], cand_role = ''model'',
                                  finishReason =
                                    or_else (opt_member choice ''finish_reason'') JUndefined,
                                  cand_index = None\<rparr>],
                              r_text = content,
                              r_functionCalls = None,
                              r_data = None\<rparr>
                   else None)))"

text \<open>
  The \<^verbatim>\<open>for (const line of lines)\<close> loop: what it yields, and whether it left through
  \<^verbatim>\<open>return\<close> (the termination frame) or ran to its end.
\<close>

datatype signal = Continue | Return

fun for_lines :: "parser \<Rightarrow> string list \<Rightarrow> response list \<times> signal" where
  "for_lines parse [] = ([], Continue)"
| "for_lines parse (line # lines) =
     (let trimmed = trim line
      in if trimmed = [] then for_lines parse lines
         else if trimmed = ''data: [DONE]'' then ([], Return)
         else if startsWith trimmed ''data: ''
         then (case frame parse (drop 6 trimmed) of
                 None \<Rightarrow> for_lines parse lines
               | Some r \<Rightarrow>
                   (case for_lines parse lines of (rs, sig) \<Rightarrow> (r # rs, sig)))
         else for_lines parse lines)"

text \<open>
  The \<^verbatim>\<open>while (true)\<close> loop over \<^verbatim>\<open>reader.read()\<close>. The stream is the list of the
  chunks it delivers before it reports \<^verbatim>\<open>done\<close>. The result: the responses yielded in
  order, how the generator ended, and the number of \<^verbatim>\<open>reader.read()\<close> calls made.
  \<^verbatim>\<open>lines.pop() || ''\<close> takes the last piece off \<open>lines\<close>.
\<close>

datatype ending = EndOfStream | TerminationFrame

fun read_loop ::
  "parser \<Rightarrow> 'd handler \<Rightarrow> 'd \<Rightarrow> string \<Rightarrow> byte list list \<Rightarrow> response list \<times> ending \<times> nat"
where
  "read_loop parse h d buffer [] = ([], EndOfStream, 1)"
| "read_loop parse h d buffer (val # rest) =
     (case decode h d val of (d1, s) \<Rightarrow>
        (let buffer1 = buffer @ s;
             lines = split_on CHR 0x0A buffer1;
             buffer2 = (if last lines \<noteq> [] then last lines else []);
             lines1 = butlast lines
         in case for_lines parse lines1 of
              (rs, Return) \<Rightarrow> (rs, TerminationFrame, 1)
            | (rs, Continue) \<Rightarrow>
                (case read_loop parse h d1 buffer2 rest of
                   (rs1, e, n) \<Rightarrow> (rs @ rs1, e, Suc n))))"

text \<open>
  The generator that \<^verbatim>\<open>generateContentStream\<close> returns, run to its end by a consumer
  that takes every value: \<^verbatim>\<open>let buffer = ''\<close>, the loop, and in \<^verbatim>\<open>finally\<close> one
  \<^verbatim>\<open>reader.releaseLock()\<close>.
\<close>

record run =
  yielded :: "response list"
  ended :: ending
  reads :: nat
  released :: nat

definition generator :: "parser \<Rightarrow> 'd handler \<Rightarrow> 'd \<Rightarrow> byte list list \<Rightarrow> run" where
  "generator parse h d0 chunks =
     (case read_loop parse h d0 [] chunks of
        (rs, e, n) \<Rightarrow> \<lparr>yielded = rs, ended = e, reads = n, released = 1\<rparr>)"

subsection \<open>The class and its requests\<close>

text \<open>
  The fields of an \<^verbatim>\<open>OpenRouterContentGenerator\<close>. The constructor reads two
  environment variables, \<^verbatim>\<open>process.env[name] || default\<close>.
\<close>

record openrouter =
  apiKey :: string
  baseUrl :: string
  model :: string

definition env_or :: "(string \<Rightarrow> string option) \<Rightarrow> string \<Rightarrow> string \<Rightarrow> string" where
  "env_or env name dflt =
     (case env name of None \<Rightarrow> dflt | Some v \<Rightarrow> if truthy_str (Some v) then v else dflt)"

definition new_generator :: "(string \<Rightarrow> string option) \<Rightarrow> string \<Rightarrow> openrouter" where
  "new_generator env key =
     \<lparr>apiKey = key,
      baseUrl = env_or env ''OPENROUTER_BASE_URL'' ''https://openrouter.ai/api/v1'',
      model = env_or env ''OPENROUTER_MODEL'' ''google/gemini-2.0-flash-001''\<rparr>"

text \<open>\<^verbatim>\<open>request.config\<close> as the code casts it, and \<^verbatim>\<open>GenerateContentParameters\<close>.\<close>

record gen_config =
  temperature :: "rat option"
  topP :: "rat option"
  maxOutputTokens :: "rat option"

record gen_request =
  g_contents :: contents
  g_config :: "gen_config option"

text \<open>
  The object handed to \<^verbatim>\<open>JSON.stringify\<close> as the request body; \<open>b_stream\<close> is
  \<open>None\<close> where the body has no \<^verbatim>\<open>stream\<close> member.
\<close>

record request_body =
  b_model :: string
  b_messages :: "chat_message list"
  b_stream :: "bool option"
  b_temperature :: rat
  b_top_p :: rat
  b_max_tokens :: "rat option"

record http_request =
  url :: string
  http_method :: string
  headers :: "(string \<times> string) list"
  body :: request_body

text \<open>
  What \<^verbatim>\<open>fetch\<close> resolves to: \<open>resp_text\<close> is the body as \<^verbatim>\<open>response.text()\<close> and
  \<^verbatim>\<open>response.json()\<close> read it, \<open>resp_body\<close> the chunks the reader of
  \<^verbatim>\<open>response.body\<close> delivers (\<open>None\<close>: no body).
\<close>

record http_response =
  ok :: bool
  status :: nat
  statusText :: string
  resp_text :: string
  resp_body :: "byte list list option"

type_synonym transport = "http_request \<Rightarrow> error + http_response"

text \<open>
  The outcome of an \<^verbatim>\<open>async\<close> operation: how its promise settles, and the
  \<^verbatim>\<open>fetch\<close> calls it made, in order.
\<close>

type_synonym 'a outcome = "(error + 'a) \<times> http_request list"

definition build_body :: "openrouter \<Rightarrow> gen_request \<Rightarrow> bool option \<Rightarrow> request_body" where
  "build_body g request stream =
     (let messages = convertContentsToMessages (g_contents request);
          config = g_config request
      in \<lparr>b_model = model g,
          b_messages = messages,
          b_stream = stream,
          b_temperature =
            (case config of None \<Rightarrow> 7 / 10
             | Some c \<Rightarrow> (case temperature c of None \<Rightarrow> 7 / 10 | Some t \<Rightarrow> t)),
          b_top_p =
            (case config of None \<Rightarrow> 1
             | Some c \<Rightarrow> (case topP c of None \<Rightarrow> 1 | Some t \<Rightarrow> t)),
          b_max_tokens =
            (case config of None \<Rightarrow> None | Some c \<Rightarrow> maxOutputTokens c)\<rparr>)"

definition post :: "openrouter \<Rightarrow> request_body \<Rightarrow> http_request" where
  "post g b =
     \<lparr>url = baseUrl g @ ''/chat/completions'',
      http_method = ''POST'',
      headers =
        [(''Content-Type'', ''application/json''),
         (''Authorization'', ''Bearer '' @ apiKey g),
         (''HTTP-Referer'', ''https://github.com/google/gemini-cli''),
         (''X-Title'', ''Gemini CLI'')],
      body = b\<rparr>"

text \<open>The decimal digits of a number, as a template literal prints a status code.\<close>

fun digits :: "nat \<Rightarrow> string" where
  "digits n =
     (if n < 10 then [char_of (48 + n)]
      else digits (n div 10) @ [char_of (48 + n mod 10)])"

definition api_error :: "http_response \<Rightarrow> error" where
  "api_error r =
     Error (''OpenRouter API Error: '' @ digits (status r) @ '' '' @ statusText r @
            '' - '' @ resp_text r)"

definition generateContent ::
  "openrouter \<Rightarrow> transport \<Rightarrow> parser \<Rightarrow> gen_request \<Rightarrow> response outcome"
where
  "generateContent g fetch parse request =
     (let rq = post g (build_body g request None)
      in case fetch rq of
           Inl e \<Rightarrow> (Inl e, [rq])
         | Inr r \<Rightarrow>
             if \<not> ok r then (Inl (api_error r), [rq])
             else (case parse (resp_text r) of
                     None \<Rightarrow> (Inl SyntaxError, [rq])
                   | Some data \<Rightarrow> (convertOpenAIResponseToGemini data, [rq])))"

definition generateContentStream ::
  "openrouter \<Rightarrow> transport \<Rightarrow> parser \<Rightarrow> 'd handler \<Rightarrow> 'd \<Rightarrow> gen_request \<Rightarrow> run outcome"
where
  "generateContentStream g fetch parse h d0 request =
     (let rq = post g (build_body g request (Some True))
      in case fetch rq of
           Inl e \<Rightarrow> (Inl e, [rq])
         | Inr r \<Rightarrow>
             if \<not> ok r then (Inl (api_error r), [rq])
             else (case resp_body r of
                     None \<Rightarrow> (Inl (Error ''No response body''), [rq])
                   | Some chunks \<Rightarrow> (Inr (generator parse h d0 chunks), [rq])))"

subsection \<open>Counting tokens, embedding\<close>

text \<open>
  \<^verbatim>\<open>countTokens\<close>. \<^verbatim>\<open>.filter(Boolean)\<close> keeps the truthy elements.
  \<^verbatim>\<open>Math.ceil(text.length / 4)\<close>: a length is a whole number below \<open>2\<^sup>5\<^sup>3\<close>, so its
  quotient by four is exact in a double and the ceiling is that of the rational.
\<close>

record count_request =
  ct_contents :: contents

record count_response =
  totalTokens :: nat

definition count_text :: "contents \<Rightarrow> string" where
  "count_text cts =
     (case cts of
        CString s \<Rightarrow> s
      | CArray cs \<Rightarrow>
          concat
            (map (\<lambda>c. let parts = (case c_parts c of None \<Rightarrow> [] | Some ps \<Rightarrow> ps)
                       in join_empty
                            (filter truthy_str
                               (map (\<lambda>p. if text_in p then p_text p else Some []) parts)))
               cs)
      | _ \<Rightarrow> [])"

definition countTokens :: "count_request \<Rightarrow> count_response outcome" where
  "countTokens request =
     (let text = count_text (ct_contents request)
      in (Inr \<lparr>totalTokens = nat \<lceil>(of_nat (length text) :: rat) / 4\<rceil>\<rparr>, []))"

text \<open>\<^verbatim>\<open>embedContent\<close> throws at once; the \<^verbatim>\<open>async\<close> function rejects its promise.\<close>

definition embedContent :: "'rq \<Rightarrow> 'rs outcome" where
  "embedContent request = (Inl (Error ''Embed content not supported via OpenRouter yet.''), [])"

subsection \<open>Notions the properties are stated with\<close>

text \<open>
  The text a stream has delivered, the lines of it that a newline has completed, and
  the rest, which the generator holds in \<^verbatim>\<open>buffer\<close>.
\<close>

definition text_of :: "'d handler \<Rightarrow> 'd \<Rightarrow> byte list list \<Rightarrow> string" where
  "text_of h d0 chunks = snd (decode h d0 (concat chunks))"

definition complete_lines :: "string \<Rightarrow> string list" where
  "complete_lines t = butlast (split_on CHR 0x0A t)"

definition pending :: "string \<Rightarrow> string" where
  "pending t = last (split_on CHR 0x0A t)"

definition ending_of :: "signal \<Rightarrow> ending" where
  "ending_of sig = (case sig of Return \<Rightarrow> TerminationFrame | Continue \<Rightarrow> EndOfStream)"

text \<open>
  The text of a Turn as the specification words it: the texts of its text parts, in
  order, parts without text adding nothing; and the text of a content value.
\<close>

fun part_text :: "part \<Rightarrow> string" where
  "part_text (TextPart s) = s"
| "part_text UndefTextPart = []"
| "part_text NonTextPart = []"

definition turn_text :: "content \<Rightarrow> string" where
  "turn_text c = (case c_parts c of None \<Rightarrow> [] | Some ps \<Rightarrow> concat (map part_text ps))"

fun all_text :: "contents \<Rightarrow> string" where
  "all_text (CString s) = s"
| "all_text (CArray cs) = concat (map turn_text cs)"
| "all_text (CContent c) = turn_text c"
| "all_text (CPart p) = part_text p"

text \<open>
  The role of a message as the specification words it (\<open>spec_role\<close>), and as the
  code computes it, by cases (\<open>passed_role\<close>).
\<close>

definition spec_role :: "string option \<Rightarrow> string" where
  "spec_role r = (if r = Some ''model'' then ''assistant'' else ''user'')"

definition passed_role :: "string option \<Rightarrow> string" where
  "passed_role r =
     (case r of
        None \<Rightarrow> ''user''
      | Some s \<Rightarrow> if s = ''model'' then ''assistant'' else if s = [] then ''user'' else s)"

text \<open>
  The content of the first choice's message and its finish reason, read from the
  array of choices; \<^verbatim>\<open>undefined\<close> stands for an absent value. The delta content of a
  choice of a streamed frame.
\<close>

definition message_content :: "js list \<Rightarrow> js" where
  "message_content choices =
     (case choices of [] \<Rightarrow> JUndefined | c # cs \<Rightarrow> lookup (lookup c ''message'') ''content'')"

definition finish_reason :: "js list \<Rightarrow> js" where
  "finish_reason choices =
     (case choices of [] \<Rightarrow> JUndefined | c # cs \<Rightarrow> lookup c ''finish_reason'')"

text \<open>The primary text of a translated response: that content where it is truthy, else
  the empty string.\<close>

definition primary_text :: "js list \<Rightarrow> js" where
  "primary_text choices =
     (if truthy (message_content choices) then message_content choices else JStr [])"

definition delta_content :: "js \<Rightarrow> js" where
  "delta_content choice = lookup (lookup choice ''delta'') ''content''"

definition lacks_choices :: "js \<Rightarrow> bool" where
  "lacks_choices data = nullish (lookup data ''choices'')"

subsection \<open>Values for the examples\<close>

text \<open>
  A decoder for streams of ASCII bytes, where every byte is one code unit; the bytes
  of an ASCII text; a newline.
\<close>

definition ascii :: "unit handler" where
  "ascii d b = (d, [char_of (unat b)])"

definition bytes_of :: "string \<Rightarrow> byte list" where
  "bytes_of s = map (\<lambda>c. of_nat (of_char c)) s"

definition nl :: string where
  "nl = [CHR 0x0A]"

text \<open>
  The payloads of the examples and the values \<^verbatim>\<open>JSON.parse\<close> gives for them.
  \<open>known_parse\<close> knows these texts only and throws on every other text, as
  \<^verbatim>\<open>JSON.parse\<close> throws on \<^verbatim>\<open>not-json\<close> and on \<^verbatim>\<open>[DONE]\<close>.
\<close>

definition hi_frame :: string where
  \<open>hi_frame = ''{"choices":[{"delta":{"content":"Hi"}}]}''\<close>

definition stop_frame :: string where
  \<open>stop_frame = ''{"choices":[{"delta":{"content":"!"},"finish_reason":"stop"}]}''\<close>

definition error_frame :: string where
  \<open>error_frame = ''{"error":"overloaded"}''\<close>

definition empty_delta_frame :: string where
  \<open>empty_delta_frame = ''{"choices":[{"delta":{}}]}''\<close>

definition ok_body :: string where
  \<open>ok_body = ''{"choices":[{"message":{"content":"ok"},"finish_reason":"stop"}]}''\<close>

definition hi_js :: js where
  "hi_js = JObj [(''choices'', JArr [JObj [(''delta'', JObj [(''content'', JStr ''Hi'')])]])]"

definition stop_js :: js where
  "stop_js =
     JObj [(''choices'',
            JArr [JObj [(''delta'', JObj [(''content'', JStr ''!'')]),
                        (''finish_reason'', JStr ''stop'')]])]"

definition error_js :: js where
  "error_js = JObj [(''error'', JStr ''overloaded'')]"

definition empty_delta_js :: js where
  "empty_delta_js = JObj [(''choices'', JArr [JObj [(''delta'', JObj [])]])]"

definition ok_js :: js where
  "ok_js =
     JObj [(''choices'',
            JArr [JObj [(''message'', JObj [(''content'', JStr ''ok'')]),
                        (''finish_reason'', JStr ''stop'')]])]"

definition known_parse :: parser where
  "known_parse s =
     (if s = hi_frame then Some hi_js
      else if s = stop_frame then Some stop_js
      else if s = error_frame then Some error_js
      else if s = empty_delta_frame then Some empty_delta_js
      else if s = ok_body then Some ok_js
      else None)"

text \<open>
  A transport that answers every request with one successful response; a single Turn
  that is not inside an array; three Turns and the messages they become.
\<close>

definition example_fetch :: transport where
  "example_fetch rq =
     Inr \<lparr>ok = True, status = 200, statusText = ''OK'', resp_text = ok_body,
          resp_body = Some [bytes_of (''data: '' @ hi_frame @ nl)]\<rparr>"

definition single_turn :: contents where
  "single_turn = CContent \<lparr>c_parts = Some [TextPart ''hello''], c_role = Some ''user''\<rparr>"

definition example_turns :: "content list" where
  "example_turns =
     [\<lparr>c_parts = Some [TextPart ''a'', NonTextPart, TextPart ''b''], c_role = Some ''model''\<rparr>,
      \<lparr>c_parts = None, c_role = None\<rparr>,
      \<lparr>c_parts = Some [UndefTextPart, TextPart ''c''], c_role = Some ''user''\<rparr>]"

definition example_messages :: "chat_message list" where
  "example_messages =
     [\<lparr>m_role = ''assistant'', m_content = ''ab''\<rparr>,
      \<lparr>m_role = ''user'', m_content = []\<rparr>,
      \<lparr>m_role = ''user'', m_content = ''c''\<rparr>]"

text \<open>The response a streamed frame with the text \<open>t\<close> and the finish reason \<open>f\<close> yields.\<close>

definition partial :: "js \<Rightarrow> js \<Rightarrow> response" where
  "partial t f =
     \<lparr>candidates = [\<lparr>cand_parts = [t], cand_role = ''model'', finishReason = f, cand_index = None\<rparr>],
      r_text = t, r_functionCalls = None, r_data = None\<rparr>"

section \<open>Properties\<close>

subsection \<open>Splitting, decoding and the loops\<close>

lemma split_on_not_Nil: "split_on sep s \<noteq> []"
  by (induction s) (auto split: list.splits)

lemma split_on_append:
  "split_on sep (a @ b) =
     butlast (split_on sep a) @ split_on sep (last (split_on sep a) @ b)"
proof (induction a)
  case Nil
  show ?case by simp
next
  case (Cons c a)
  show ?case
  proof (cases "c = sep")
    case True
    with Cons show ?thesis by (simp add: split_on_not_Nil)
  next
    case False
    obtain l ls where a: "split_on sep a = l # ls"
      using split_on_not_Nil [of sep a] by (cases "split_on sep a") auto
    show ?thesis
    proof (cases ls)
      case Nil
      with False a Cons show ?thesis by simp
    next
      case (Cons l2 ls2)
      with False a Cons.IH show ?thesis by simp
    qed
  qed
qed

lemma butlast_split_on_append:
  "butlast (split_on sep (a @ b)) =
     butlast (split_on sep a) @ butlast (split_on sep (last (split_on sep a) @ b))"
  by (subst split_on_append) (simp add: butlast_append split_on_not_Nil)

lemma last_split_on_append:
  "last (split_on sep (a @ b)) = last (split_on sep (last (split_on sep a) @ b))"
  by (subst split_on_append) (simp add: split_on_not_Nil)

lemma for_lines_append:
  "for_lines parse (xs @ ys) =
     (case for_lines parse xs of
        (rs, Return) \<Rightarrow> (rs, Return)
      | (rs, Continue) \<Rightarrow> (case for_lines parse ys of (rs1, sig) \<Rightarrow> (rs @ rs1, sig)))"
  by (induction xs) (auto simp: Let_def split: prod.splits signal.splits option.splits)

lemma decode_append:
  "decode h d (a @ b) =
     (case decode h d a of (d1, s1) \<Rightarrow>
        (case decode h d1 b of (d2, s2) \<Rightarrow> (d2, s1 @ s2)))"
  by (induction a arbitrary: d) (auto split: prod.splits)


lemma split_on_no_sep: "sep \<notin> set s \<Longrightarrow> split_on sep s = [s]"
  by (induction s) auto

lemma last_split_on_no_sep: "sep \<notin> set (last (split_on sep s))"
proof (induction s)
  case Nil
  show ?case by simp
next
  case (Cons c s)
  obtain l ls where a: "split_on sep s = l # ls"
    using split_on_not_Nil [of sep s] by (cases "split_on sep s") auto
  with Cons show ?case by (cases ls) auto
qed

lemma complete_lines_append:
  "complete_lines (a @ b) = complete_lines a @ complete_lines (pending a @ b)"
  unfolding complete_lines_def pending_def by (rule butlast_split_on_append)

lemma complete_lines_no_newline: "CHR 0x0A \<notin> set t \<Longrightarrow> complete_lines t = []"
  by (simp add: complete_lines_def split_on_no_sep)

lemma pending_no_newline: "CHR 0x0A \<notin> set (pending t)"
  unfolding pending_def by (rule last_split_on_no_sep)

lemma read_loop_Cons:
  "read_loop parse h d buffer (c # chunks) =
     (case decode h d c of (d1, s) \<Rightarrow>
        (case for_lines parse (complete_lines (buffer @ s)) of
           (rs, Return) \<Rightarrow> (rs, TerminationFrame, 1)
         | (rs, Continue) \<Rightarrow>
             (case read_loop parse h d1 (pending (buffer @ s)) chunks of
                (rs1, e, n) \<Rightarrow> (rs @ rs1, e, Suc n))))"
proof -
  have pop: "(if x \<noteq> [] then x else []) = x" for x :: string by simp
  show ?thesis
    by (simp add: complete_lines_def pending_def Let_def pop split: prod.splits signal.splits)
qed

lemma read_loop_lines:
  "CHR 0x0A \<notin> set buffer \<Longrightarrow>
   fst (read_loop parse h d buffer chunks) =
     fst (for_lines parse (complete_lines (buffer @ snd (decode h d (concat chunks))))) \<and>
   fst (snd (read_loop parse h d buffer chunks)) =
     ending_of (snd (for_lines parse (complete_lines (buffer @ snd (decode h d (concat chunks))))))"
proof (induction chunks arbitrary: d buffer)
  case Nil
  then show ?case by (simp add: complete_lines_no_newline ending_of_def)
next
  case (Cons c chunks)
  obtain d1 s where dc: "decode h d c = (d1, s)" by (cases "decode h d c")
  obtain d2 t where dr: "decode h d1 (concat chunks) = (d2, t)"
    by (cases "decode h d1 (concat chunks)")
  have all: "snd (decode h d (c @ concat chunks)) = s @ t"
    by (simp add: decode_append dc dr)
  let ?b2 = "pending (buffer @ s)"
  have ih: "fst (read_loop parse h d1 ?b2 chunks) =
              fst (for_lines parse (complete_lines (?b2 @ t))) \<and>
            fst (snd (read_loop parse h d1 ?b2 chunks)) =
              ending_of (snd (for_lines parse (complete_lines (?b2 @ t))))"
    using Cons.IH [OF pending_no_newline, of d1 "buffer @ s"] by (simp add: dr)
  have lines: "complete_lines (buffer @ s @ t) =
                 complete_lines (buffer @ s) @ complete_lines (?b2 @ t)"
    using complete_lines_append [of "buffer @ s" t] by simp
  obtain rs sig where fl: "for_lines parse (complete_lines (buffer @ s)) = (rs, sig)"
    by (cases "for_lines parse (complete_lines (buffer @ s))")
  obtain rs1 e n where rl: "read_loop parse h d1 ?b2 chunks = (rs1, e, n)"
    by (cases "read_loop parse h d1 ?b2 chunks")
  obtain rs2 sig2 where fl2: "for_lines parse (complete_lines (?b2 @ t)) = (rs2, sig2)"
    by (cases "for_lines parse (complete_lines (?b2 @ t))")
  show ?case
    using ih fl rl fl2
    by (cases sig)
       (simp_all add: all lines for_lines_append dc ending_of_def read_loop_Cons
          del: read_loop.simps)
qed


lemma decode_ascii: "decode ascii d (bytes_of s) = (d, s)"
proof (induction s)
  case Nil
  show ?case by (simp add: bytes_of_def)
next
  case (Cons c s)
  have "unat (of_nat (of_char c) :: byte) = of_char c"
    by (simp add: unat_of_nat)
  hence "ascii d (of_nat (of_char c)) = (d, [c])" by (simp add: ascii_def)
  with Cons show ?case by (simp add: bytes_of_def)
qed

lemma generator_lines:
  "yielded (generator parse h d0 chunks) =
     fst (for_lines parse (complete_lines (text_of h d0 chunks)))"
  "ended (generator parse h d0 chunks) =
     ending_of (snd (for_lines parse (complete_lines (text_of h d0 chunks))))"
  using read_loop_lines [of "[]" parse h d0 chunks]
  by (auto simp: generator_def text_of_def split: prod.splits)

lemma bytes_of_append: "bytes_of (a @ b) = bytes_of a @ bytes_of b"
  by (simp add: bytes_of_def)

lemma text_of_ascii: "text_of ascii d (map bytes_of ss) = concat ss"
proof -
  have "concat (map bytes_of ss) = bytes_of (concat ss)"
    by (induction ss) (simp_all add: bytes_of_append bytes_of_def)
  thus ?thesis by (simp add: text_of_def decode_ascii)
qed

lemmas example_defs =
  complete_lines_def hi_frame_def stop_frame_def error_frame_def empty_delta_frame_def
  ok_body_def hi_js_def stop_js_def error_js_def empty_delta_js_def ok_js_def nl_def
  trim_def is_space_def startsWith_def frame_def known_parse_def first_choice_def
  member_def opt_member_def or_else_def partial_def Let_def

lemma for_lines_at_termination_frame:
  "trim l = ''data: [DONE]'' \<Longrightarrow>
   for_lines parse (before @ l # after) = (fst (for_lines parse before), Return)"
  by (simp add: for_lines_append split: prod.splits signal.splits)

lemma for_lines_silent_line:
  "for_lines parse [l] = ([], Continue) \<Longrightarrow>
   for_lines parse (before @ l # after) = for_lines parse (before @ after)"
proof -
  assume l: "for_lines parse [l] = ([], Continue)"
  have "for_lines parse (l # after) = for_lines parse after"
    using for_lines_append [of parse "[l]" after] l by (simp del: for_lines.simps)
  thus ?thesis
    by (simp only: for_lines_append [of parse before "l # after"]
          for_lines_append [of parse before after])
qed

lemma read_loop_stops:
  "fst (snd (read_loop parse h d buffer chunks)) = TerminationFrame \<Longrightarrow>
   read_loop parse h d buffer (chunks @ unread) = read_loop parse h d buffer chunks"
proof (induction chunks arbitrary: d buffer)
  case Nil
  then show ?case by simp
next
  case (Cons c chunks)
  then show ?case
    by (auto simp: read_loop_Cons simp del: read_loop.simps
          split: prod.splits signal.splits)
qed

lemma read_loop_reads:
  "fst (snd (read_loop parse h d buffer chunks)) = TerminationFrame \<Longrightarrow>
   snd (snd (read_loop parse h d buffer chunks)) \<le> length chunks"
proof (induction chunks arbitrary: d buffer)
  case Nil
  then show ?case by simp
next
  case (Cons c chunks)
  obtain d1 s where dc: "decode h d c = (d1, s)" by (cases "decode h d c")
  obtain rs sig where fl: "for_lines parse (complete_lines (buffer @ s)) = (rs, sig)"
    by (cases "for_lines parse (complete_lines (buffer @ s))")
  obtain rs1 e n where rl: "read_loop parse h d1 (pending (buffer @ s)) chunks = (rs1, e, n)"
    by (cases "read_loop parse h d1 (pending (buffer @ s)) chunks")
  show ?case
  proof (cases sig)
    case Return
    with dc fl show ?thesis by (simp add: read_loop_Cons del: read_loop.simps)
  next
    case Continue
    with dc fl rl Cons.prems have "e = TerminationFrame"
      by (simp add: read_loop_Cons del: read_loop.simps)
    with Cons.IH [of d1 "pending (buffer @ s)"] rl have "n \<le> length chunks" by simp
    with Continue dc fl rl show ?thesis by (simp add: read_loop_Cons del: read_loop.simps)
  qed
qed

lemma generator_stops:
  "ended (generator parse h d0 chunks) = TerminationFrame \<Longrightarrow>
   generator parse h d0 (chunks @ unread) = generator parse h d0 chunks \<and>
   reads (generator parse h d0 chunks) \<le> length chunks"
  using read_loop_stops [of parse h d0 "[]" chunks unread]
    read_loop_reads [of parse h d0 "[]" chunks]
  by (auto simp: generator_def split: prod.splits)

lemma generator_without_line:
  assumes "complete_lines (text_of h d0 chunks) = before @ l # after"
    and "for_lines parse [l] = ([], Continue)"
  shows "yielded (generator parse h d0 chunks) = fst (for_lines parse (before @ after))"
    and "ended (generator parse h d0 chunks) = ending_of (snd (for_lines parse (before @ after)))"
  using assms by (simp_all add: generator_lines for_lines_silent_line)

lemma opt_member_lookup: "opt_member v k = lookup v k"
  by (cases v) (simp_all add: opt_member_def)

lemma first_choice_lacking: "lacks_choices data \<Longrightarrow> first_choice data = Inl TypeError"
  by (cases data; cases "lookup data ''choices''")
     (simp_all add: lacks_choices_def first_choice_def member_def)

subsection \<open>The translators and the token count\<close>

lemma text_parts_concat: "text_parts ps = concat (map part_text ps)"
proof (induction ps)
  case Nil
  show ?case by (simp add: text_parts_def)
next
  case (Cons p ps)
  then show ?case by (cases p) (auto simp: text_parts_def)
qed

lemma message_role_passed: "message_role r = passed_role r"
  by (cases r) (auto simp: message_role_def passed_role_def Let_def)

lemma content_to_message_eq:
  "content_to_message t = \<lparr>m_role = passed_role (c_role t), m_content = turn_text t\<rparr>"
  by (simp add: content_to_message_def message_role_passed text_parts_concat turn_text_def
        split: option.splits)

lemma passed_role_spec:
  "r \<in> {None, Some ''user'', Some ''model''} \<Longrightarrow> passed_role r = spec_role r"
  by (auto simp: passed_role_def spec_role_def)

lemma first_choice_array:
  "map_of members ''choices'' = Some (JArr choices) \<Longrightarrow>
   first_choice (JObj members) = Inr (case choices of [] \<Rightarrow> JUndefined | c # cs \<Rightarrow> c)"
  by (cases choices) (simp_all add: first_choice_def member_def)

lemma ceiling_quarter: "nat \<lceil>(of_nat n :: rat) / 4\<rceil> = (n + 3) div 4"
proof -
  have "\<lceil>(of_nat n :: rat) / 4\<rceil> = \<lceil>(of_int (int n) :: rat) / of_int 4\<rceil>" by simp
  also have "\<dots> = - (- int n div 4)" by (rule ceiling_divide_eq_div)
  finally show ?thesis by linarith
qed

lemma join_filter_truthy:
  "join_empty (filter truthy_str (map (\<lambda>p. if text_in p then p_text p else Some []) ps)) =
     concat (map part_text ps)"
proof (induction ps)
  case Nil
  show ?case by simp
next
  case (Cons p ps)
  then show ?case by (cases p) auto
qed

lemma count_text_all_text:
  "is_string cts \<or> is_array cts \<Longrightarrow> count_text cts = all_text cts"
proof (cases cts)
  case (CArray cs)
  have "(\<lambda>c. let parts = (case c_parts c of None \<Rightarrow> [] | Some ps \<Rightarrow> ps)
             in join_empty (filter truthy_str
                  (map (\<lambda>p. if text_in p then p_text p else Some []) parts))) = turn_text"
    by (rule ext) (simp add: Let_def join_filter_truthy turn_text_def split: option.splits)
  with CArray show ?thesis by (simp add: count_text_def)
qed (simp_all add: count_text_def)

subsection \<open>Chunk boundaries\<close>

text \<open>
  C1. However the bytes of a stream are split into reads, the generator yields the
  same responses, in the same order, and ends the same way as when all the bytes come
  in one read. Every response carries its text delta and its finish reason, so these
  agree too. It holds for every parser and every decoder handler, and empty reads
  change nothing either.
\<close>

theorem chunk_boundary_independence:
  "yielded (generator parse h d0 chunks) = yielded (generator parse h d0 [concat chunks]) \<and>
   ended (generator parse h d0 chunks) = ended (generator parse h d0 [concat chunks])"
  by (simp add: generator_lines text_of_def)

text \<open>
  The stream of the specification's example, cut inside the first line and inside the
  termination frame.
\<close>

theorem chunk_boundary_independence_witness:
  \<open>yielded (generator known_parse ascii ()
      (map bytes_of [''data: {"cho'', ''ices":[{"delta":{"content":"Hi"}}]}'' @ nl @ ''da'',
                     ''ta: [DONE]'' @ nl])) =
     [partial (JStr ''Hi'') JUndefined] \<and>
   yielded (generator known_parse ascii ()
      [concat (map bytes_of [''data: {"cho'', ''ices":[{"delta":{"content":"Hi"}}]}'' @ nl @ ''da'',
                     ''ta: [DONE]'' @ nl])]) =
     [partial (JStr ''Hi'') JUndefined]\<close>
proof -
  have \<open>yielded (generator known_parse ascii ()
      (map bytes_of [''data: {"cho'', ''ices":[{"delta":{"content":"Hi"}}]}'' @ nl @ ''da'',
                     ''ta: [DONE]'' @ nl])) =
     [partial (JStr ''Hi'') JUndefined]\<close>
    unfolding generator_lines text_of_ascii by (simp add: example_defs)
  thus ?thesis
    using chunk_boundary_independence [of known_parse ascii "()"
      \<open>map bytes_of [''data: {"cho'', ''ices":[{"delta":{"content":"Hi"}}]}'' @ nl @ ''da'',
                     ''ta: [DONE]'' @ nl]\<close>]
    by simp
qed

subsection \<open>The termination frame\<close>

text \<open>
  C4. When a read completes a line that, trimmed, is exactly \<^verbatim>\<open>data: [DONE]\<close>, the
  generator ends there, by \<^verbatim>\<open>return\<close> and so without an error: it has yielded what
  the lines before that line yield and nothing else, whatever lines follow in the same
  chunk (\<open>after\<close>) and whatever chunks are still unread (\<open>unread\<close>), and it has made no
  read beyond the one that completed the line. Here \<open>seen\<close> are the chunks read before
  and \<open>c\<close> is the chunk that completes the line.
\<close>

theorem termination_frame_ends_stream:
  assumes "complete_lines (text_of h d0 (seen @ [c])) = before @ l # after"
    and "trim l = ''data: [DONE]''"
  shows "yielded (generator parse h d0 (seen @ c # unread)) = fst (for_lines parse before) \<and>
         ended (generator parse h d0 (seen @ c # unread)) = TerminationFrame \<and>
         reads (generator parse h d0 (seen @ c # unread)) \<le> length seen + 1 \<and>
         generator parse h d0 (seen @ c # unread) = generator parse h d0 (seen @ [c])"
proof -
  have fl: "for_lines parse (complete_lines (text_of h d0 (seen @ [c]))) =
              (fst (for_lines parse before), Return)"
    using assms by (simp add: for_lines_at_termination_frame)
  have e: "ended (generator parse h d0 (seen @ [c])) = TerminationFrame"
    by (simp add: generator_lines fl ending_of_def)
  have y: "yielded (generator parse h d0 (seen @ [c])) = fst (for_lines parse before)"
    by (simp add: generator_lines fl)
  have "seen @ c # unread = (seen @ [c]) @ unread" by simp
  hence same: "generator parse h d0 (seen @ c # unread) = generator parse h d0 (seen @ [c])"
    using generator_stops [OF e, of unread] by simp
  have "reads (generator parse h d0 (seen @ [c])) \<le> length seen + 1"
    using generator_stops [OF e, of unread] by simp
  with same e y show ?thesis by simp
qed

text \<open>
  A first chunk with one frame, a second with the termination frame followed by a
  further frame, and a third chunk that is never read.
\<close>

theorem termination_frame_ends_stream_witness:
  "complete_lines (text_of ascii ()
      (map bytes_of [''data: '' @ hi_frame @ nl] @
       [bytes_of (''data: [DONE]'' @ nl @ ''data: '' @ stop_frame @ nl)])) =
     [''data: '' @ hi_frame] @ ''data: [DONE]'' # [''data: '' @ stop_frame] \<and>
   trim ''data: [DONE]'' = ''data: [DONE]'' \<and>
   yielded (generator known_parse ascii ()
      (map bytes_of [''data: '' @ hi_frame @ nl] @
       bytes_of (''data: [DONE]'' @ nl @ ''data: '' @ stop_frame @ nl) #
       map bytes_of [''data: '' @ stop_frame @ nl])) =
     [partial (JStr ''Hi'') JUndefined] \<and>
   ended (generator known_parse ascii ()
      (map bytes_of [''data: '' @ hi_frame @ nl] @
       bytes_of (''data: [DONE]'' @ nl @ ''data: '' @ stop_frame @ nl) #
       map bytes_of [''data: '' @ stop_frame @ nl])) = TerminationFrame \<and>
   reads (generator known_parse ascii ()
      (map bytes_of [''data: '' @ hi_frame @ nl] @
       bytes_of (''data: [DONE]'' @ nl @ ''data: '' @ stop_frame @ nl) #
       map bytes_of [''data: '' @ stop_frame @ nl])) \<le> 2"
proof -
  have lines: "complete_lines (text_of ascii ()
      (map bytes_of [''data: '' @ hi_frame @ nl] @
       [bytes_of (''data: [DONE]'' @ nl @ ''data: '' @ stop_frame @ nl)])) =
     [''data: '' @ hi_frame] @ ''data: [DONE]'' # [''data: '' @ stop_frame]"
    using text_of_ascii [of "()" "[''data: '' @ hi_frame @ nl,
      ''data: [DONE]'' @ nl @ ''data: '' @ stop_frame @ nl]"]
    by (simp add: example_defs)
  have tr: "trim ''data: [DONE]'' = ''data: [DONE]''"
    by (simp add: example_defs)
  have before: "fst (for_lines known_parse [''data: '' @ hi_frame]) =
                  [partial (JStr ''Hi'') JUndefined]"
    by (simp add: example_defs)
  note t = termination_frame_ends_stream [OF lines tr, of known_parse
            "map bytes_of [''data: '' @ stop_frame @ nl]"]
  from t [THEN conjunct1] before
  have y: "yielded (generator known_parse ascii ()
      (map bytes_of [''data: '' @ hi_frame @ nl] @
       bytes_of (''data: [DONE]'' @ nl @ ''data: '' @ stop_frame @ nl) #
       map bytes_of [''data: '' @ stop_frame @ nl])) =
     [partial (JStr ''Hi'') JUndefined]"
    by (rule trans)
  from t [THEN conjunct2, THEN conjunct2, THEN conjunct1]
  have r: "reads (generator known_parse ascii ()
      (map bytes_of [''data: '' @ hi_frame @ nl] @
       bytes_of (''data: [DONE]'' @ nl @ ''data: '' @ stop_frame @ nl) #
       map bytes_of [''data: '' @ stop_frame @ nl])) \<le> 2"
    by simp
  from lines tr y t [THEN conjunct2, THEN conjunct1] r show ?thesis
    by (intro conjI)
qed

subsection \<open>Lines that yield nothing\<close>

text \<open>
  C5. A complete line that, trimmed, begins with \<^verbatim>\<open>data: \<close> and whose text after
  the prefix \<^verbatim>\<open>JSON.parse\<close> rejects yields nothing, raises no error and does not end
  the loop; the generator yields what it would yield were the line not in the stream,
  so every frame after it still yields its response. The lines meant are those that
  reach the \<^verbatim>\<open>try\<close>: the termination frame \<^verbatim>\<open>data: [DONE]\<close> is decided by the
  test before it and is the subject of C4.
\<close>

theorem malformed_frame_skipped:
  assumes "complete_lines (text_of h d0 chunks) = before @ l # after"
    and "startsWith (trim l) ''data: ''"
    and "parse (drop 6 (trim l)) = None"
    and "trim l \<noteq> ''data: [DONE]''"
  shows "for_lines parse [l] = ([], Continue) \<and>
         yielded (generator parse h d0 chunks) = fst (for_lines parse (before @ after)) \<and>
         ended (generator parse h d0 chunks) =
           ending_of (snd (for_lines parse (before @ after)))"
proof -
  have "for_lines parse [l] = ([], Continue)"
    using assms(2-4) by (simp add: frame_def Let_def)
  with generator_without_line [OF assms(1), of parse] show ?thesis by simp
qed

text \<open>The line \<^verbatim>\<open>data: not-json\<close> of the specification, followed by a frame.\<close>

theorem malformed_frame_skipped_witness:
  "complete_lines (text_of ascii ()
      (map bytes_of [''data: not-json'' @ nl @ ''data: '' @ hi_frame @ nl])) =
     [] @ ''data: not-json'' # [''data: '' @ hi_frame] \<and>
   startsWith (trim ''data: not-json'') ''data: '' \<and>
   known_parse (drop 6 (trim ''data: not-json'')) = None \<and>
   trim ''data: not-json'' \<noteq> ''data: [DONE]'' \<and>
   for_lines known_parse [''data: not-json''] = ([], Continue) \<and>
   yielded (generator known_parse ascii ()
      (map bytes_of [''data: not-json'' @ nl @ ''data: '' @ hi_frame @ nl])) =
     [partial (JStr ''Hi'') JUndefined] \<and>
   ended (generator known_parse ascii ()
      (map bytes_of [''data: not-json'' @ nl @ ''data: '' @ hi_frame @ nl])) = EndOfStream"
proof -
  have lines: "complete_lines (text_of ascii ()
      (map bytes_of [''data: not-json'' @ nl @ ''data: '' @ hi_frame @ nl])) =
     [] @ ''data: not-json'' # [''data: '' @ hi_frame]"
    unfolding text_of_ascii by (simp add: example_defs)
  have sw: "startsWith (trim ''data: not-json'') ''data: ''"
    by (simp add: example_defs)
  have np: "known_parse (drop 6 (trim ''data: not-json'')) = None"
    by (simp add: example_defs)
  have nd: "trim ''data: not-json'' \<noteq> ''data: [DONE]''"
    by (simp add: example_defs)
  have rest: "for_lines known_parse ([] @ [''data: '' @ hi_frame]) =
                ([partial (JStr ''Hi'') JUndefined], Continue)"
    by (simp add: example_defs)
  note t = malformed_frame_skipped [where parse = known_parse, OF lines sw np nd]
  from t [THEN conjunct2, THEN conjunct1]
  have y: "yielded (generator known_parse ascii ()
      (map bytes_of [''data: not-json'' @ nl @ ''data: '' @ hi_frame @ nl])) =
     [partial (JStr ''Hi'') JUndefined]"
    by (simp only: rest fst_conv)
  from t [THEN conjunct2, THEN conjunct2]
  have e: "ended (generator known_parse ascii ()
      (map bytes_of [''data: not-json'' @ nl @ ''data: '' @ hi_frame @ nl])) = EndOfStream"
    by (simp only: rest snd_conv ending_of_def signal.case)
  from lines sw np nd t [THEN conjunct1] y e show ?thesis
    by (intro conjI)
qed

text \<open>
  C9. A complete line that begins with \<^verbatim>\<open>data: \<close> and whose payload parses, to a
  value without \<^verbatim>\<open>choices\<close> (reading it gives \<^verbatim>\<open>undefined\<close> or \<^verbatim>\<open>null\<close>) or to one
  whose first choice has no delta content (absent, or falsy as \<^verbatim>\<open>''\<close> and \<^verbatim>\<open>null\<close>
  are), yields nothing and does not end the loop. Without \<^verbatim>\<open>choices\<close>, \<^verbatim>\<open>data.choices[0]\<close> throws a TypeError; it ends in the
  \<^verbatim>\<open>catch\<close> that takes the parse errors: \<open>frame\<close> is \<open>None\<close>. The generator yields
  what it would yield were the line not in the stream. That \<^verbatim>\<open>JSON.parse\<close> rejects
  \<^verbatim>\<open>[DONE]\<close> is assumed of the parser.
\<close>

theorem frame_without_content_skipped:
  assumes "complete_lines (text_of h d0 chunks) = before @ l # after"
    and "startsWith (trim l) ''data: ''"
    and "parse (drop 6 (trim l)) = Some data"
    and "parse ''[DONE]'' = None"
    and "lacks_choices data \<or>
         (\<exists>choice. first_choice data = Inr choice \<and> \<not> truthy (delta_content choice))"
  shows "(lacks_choices data \<longrightarrow> first_choice data = Inl TypeError) \<and>
         frame parse (drop 6 (trim l)) = None \<and>
         for_lines parse [l] = ([], Continue) \<and>
         yielded (generator parse h d0 chunks) = fst (for_lines parse (before @ after)) \<and>
         ended (generator parse h d0 chunks) =
           ending_of (snd (for_lines parse (before @ after)))"
proof -
  have nd: "trim l \<noteq> ''data: [DONE]''"
  proof
    assume "trim l = ''data: [DONE]''"
    hence "drop 6 (trim l) = ''[DONE]''" by simp
    with assms(3,4) show False by simp
  qed
  have sw: "trim l \<noteq> []"
    using assms(2) by (auto simp: startsWith_def)
  have fr: "frame parse (drop 6 (trim l)) = None"
    using assms(3,5)
    by (auto simp: frame_def first_choice_lacking opt_member_lookup delta_content_def)
  have "for_lines parse [l] = ([], Continue)"
    using nd sw assms(2) fr by (simp add: Let_def)
  with generator_without_line [OF assms(1), of parse] fr first_choice_lacking [of data]
  show ?thesis by simp
qed

text \<open>
  An error object without \<^verbatim>\<open>choices\<close>, and a frame whose delta has no content, each
  followed by a frame.
\<close>

theorem frame_without_content_skipped_witness:
  "(complete_lines (text_of ascii ()
      (map bytes_of [''data: '' @ error_frame @ nl @ ''data: '' @ hi_frame @ nl])) =
     [] @ (''data: '' @ error_frame) # [''data: '' @ hi_frame] \<and>
    startsWith (trim (''data: '' @ error_frame)) ''data: '' \<and>
    known_parse (drop 6 (trim (''data: '' @ error_frame))) = Some error_js \<and>
    known_parse ''[DONE]'' = None \<and>
    lacks_choices error_js \<and>
    first_choice error_js = Inl TypeError \<and>
    yielded (generator known_parse ascii ()
      (map bytes_of [''data: '' @ error_frame @ nl @ ''data: '' @ hi_frame @ nl])) =
     [partial (JStr ''Hi'') JUndefined]) \<and>
   (complete_lines (text_of ascii ()
      (map bytes_of [''data: '' @ empty_delta_frame @ nl @ ''data: '' @ hi_frame @ nl])) =
     [] @ (''data: '' @ empty_delta_frame) # [''data: '' @ hi_frame] \<and>
    startsWith (trim (''data: '' @ empty_delta_frame)) ''data: '' \<and>
    known_parse (drop 6 (trim (''data: '' @ empty_delta_frame))) = Some empty_delta_js \<and>
    first_choice empty_delta_js = Inr (JObj [(''delta'', JObj [])]) \<and>
    \<not> truthy (delta_content (JObj [(''delta'', JObj [])])) \<and>
    yielded (generator known_parse ascii ()
      (map bytes_of [''data: '' @ empty_delta_frame @ nl @ ''data: '' @ hi_frame @ nl])) =
     [partial (JStr ''Hi'') JUndefined])"
proof -
  have nd: "known_parse ''[DONE]'' = None"
    by (simp add: example_defs)
  have rest: "fst (for_lines known_parse ([] @ [''data: '' @ hi_frame])) =
                [partial (JStr ''Hi'') JUndefined]"
    by (simp add: example_defs)
  have lines1: "complete_lines (text_of ascii ()
      (map bytes_of [''data: '' @ error_frame @ nl @ ''data: '' @ hi_frame @ nl])) =
     [] @ (''data: '' @ error_frame) # [''data: '' @ hi_frame]"
    unfolding text_of_ascii by (simp add: example_defs)
  have sw1: "startsWith (trim (''data: '' @ error_frame)) ''data: ''"
    by (simp add: example_defs)
  have p1: "known_parse (drop 6 (trim (''data: '' @ error_frame))) = Some error_js"
    by (simp add: example_defs)
  have l1: "lacks_choices error_js"
    by (simp add: lacks_choices_def error_js_def)
  note t1 = frame_without_content_skipped
    [where parse = known_parse, OF lines1 sw1 p1 nd disjI1 [OF l1]]
  from t1 [THEN conjunct1] l1 have e1: "first_choice error_js = Inl TypeError"
    by (rule mp)
  from t1 [THEN conjunct2, THEN conjunct2, THEN conjunct2, THEN conjunct1] rest
  have y1: "yielded (generator known_parse ascii ()
      (map bytes_of [''data: '' @ error_frame @ nl @ ''data: '' @ hi_frame @ nl])) =
     [partial (JStr ''Hi'') JUndefined]"
    by (rule trans)
  have lines2: "complete_lines (text_of ascii ()
      (map bytes_of [''data: '' @ empty_delta_frame @ nl @ ''data: '' @ hi_frame @ nl])) =
     [] @ (''data: '' @ empty_delta_frame) # [''data: '' @ hi_frame]"
    unfolding text_of_ascii by (simp add: example_defs)
  have sw2: "startsWith (trim (''data: '' @ empty_delta_frame)) ''data: ''"
    by (simp add: example_defs)
  have p2: "known_parse (drop 6 (trim (''data: '' @ empty_delta_frame))) = Some empty_delta_js"
    by (simp add: example_defs)
  have c2: "first_choice empty_delta_js = Inr (JObj [(''delta'', JObj [])])"
    by (simp add: example_defs)
  have d2: "\<not> truthy (delta_content (JObj [(''delta'', JObj [])]))"
    by (simp add: delta_content_def)
  have h2: "\<exists>choice. first_choice empty_delta_js = Inr choice \<and> \<not> truthy (delta_content choice)"
    using c2 d2 by blast
  note t2 = frame_without_content_skipped
    [where parse = known_parse, OF lines2 sw2 p2 nd disjI2 [OF h2]]
  from t2 [THEN conjunct2, THEN conjunct2, THEN conjunct2, THEN conjunct1] rest
  have y2: "yielded (generator known_parse ascii ()
      (map bytes_of [''data: '' @ empty_delta_frame @ nl @ ''data: '' @ hi_frame @ nl])) =
     [partial (JStr ''Hi'') JUndefined]"
    by (rule trans)
  from lines1 sw1 p1 nd l1 e1 y1 lines2 sw2 p2 c2 d2 y2 show ?thesis
    by (intro conjI)
qed

subsection \<open>The end of the stream\<close>

text \<open>
  C6. When \<^verbatim>\<open>reader.read()\<close> reports \<^verbatim>\<open>done\<close> the loop ends with nothing more
  yielded and no error, whatever \<^verbatim>\<open>buffer\<close> holds. The generator yields what the
  newline-terminated lines of the delivered text yield; text after the last newline is
  never examined. A last chunk that brings text without a newline, such as a frame that
  is not terminated, changes neither what is yielded nor how the generator ends.
\<close>

theorem stream_end_discards_buffer:
  assumes "text_of h d0 (chunks @ [tail]) = text_of h d0 chunks @ t"
    and "CHR 0x0A \<notin> set t"
  shows "read_loop parse h d buffer [] = ([], EndOfStream, 1) \<and>
         yielded (generator parse h d0 chunks) =
           fst (for_lines parse (complete_lines (text_of h d0 chunks))) \<and>
         yielded (generator parse h d0 (chunks @ [tail])) =
           yielded (generator parse h d0 chunks) \<and>
         ended (generator parse h d0 (chunks @ [tail])) =
           ended (generator parse h d0 chunks)"
proof -
  have "CHR 0x0A \<notin> set (pending (text_of h d0 chunks) @ t)"
    using assms(2) pending_no_newline by simp
  hence "complete_lines (pending (text_of h d0 chunks) @ t) = []"
    by (rule complete_lines_no_newline)
  hence "complete_lines (text_of h d0 (chunks @ [tail])) =
           complete_lines (text_of h d0 chunks)"
    using complete_lines_append [of "text_of h d0 chunks" t] by (simp add: assms(1))
  thus ?thesis by (simp add: generator_lines)
qed

text \<open>A frame, then a last chunk holding a second frame without its newline.\<close>

theorem stream_end_discards_buffer_witness:
  "text_of ascii () (map bytes_of [''data: '' @ hi_frame @ nl] @ [bytes_of (''data: '' @ stop_frame)]) =
     text_of ascii () (map bytes_of [''data: '' @ hi_frame @ nl]) @ (''data: '' @ stop_frame) \<and>
   CHR 0x0A \<notin> set (''data: '' @ stop_frame) \<and>
   yielded (generator known_parse ascii ()
      (map bytes_of [''data: '' @ hi_frame @ nl] @ [bytes_of (''data: '' @ stop_frame)])) =
     [partial (JStr ''Hi'') JUndefined] \<and>
   ended (generator known_parse ascii ()
      (map bytes_of [''data: '' @ hi_frame @ nl] @ [bytes_of (''data: '' @ stop_frame)])) =
     EndOfStream"
proof -
  have tx: "text_of ascii ()
      (map bytes_of [''data: '' @ hi_frame @ nl] @ [bytes_of (''data: '' @ stop_frame)]) =
     text_of ascii () (map bytes_of [''data: '' @ hi_frame @ nl]) @ (''data: '' @ stop_frame)"
    using text_of_ascii [of "()" "[''data: '' @ hi_frame @ nl, ''data: '' @ stop_frame]"]
      text_of_ascii [of "()" "[''data: '' @ hi_frame @ nl]"]
    by simp
  have nn: "CHR 0x0A \<notin> set (''data: '' @ stop_frame)"
    by (simp add: stop_frame_def)
  have y0: "yielded (generator known_parse ascii () (map bytes_of [''data: '' @ hi_frame @ nl])) =
              [partial (JStr ''Hi'') JUndefined]"
    unfolding generator_lines text_of_ascii by (simp add: example_defs)
  have e0: "ended (generator known_parse ascii () (map bytes_of [''data: '' @ hi_frame @ nl])) =
              EndOfStream"
    unfolding generator_lines text_of_ascii by (simp add: example_defs ending_of_def)
  note t = stream_end_discards_buffer [where parse = known_parse, OF tx nn]
  from t [THEN conjunct2, THEN conjunct2, THEN conjunct1] y0
  have y: "yielded (generator known_parse ascii ()
      (map bytes_of [''data: '' @ hi_frame @ nl] @ [bytes_of (''data: '' @ stop_frame)])) =
     [partial (JStr ''Hi'') JUndefined]"
    by (rule trans)
  from t [THEN conjunct2, THEN conjunct2, THEN conjunct2] e0
  have e: "ended (generator known_parse ascii ()
      (map bytes_of [''data: '' @ hi_frame @ nl] @ [bytes_of (''data: '' @ stop_frame)])) =
     EndOfStream"
    by (rule trans)
  from tx nn y e show ?thesis by (intro conjI)
qed

subsection \<open>Translating requests\<close>

text \<open>
  C2, as the code has it. The array branch of \<^verbatim>\<open>convertContentsToMessages\<close> gives
  one message per Turn, in the order of the Turns. The content of a message is the
  texts of the Turn's text parts, in order, parts without text adding nothing. Its role
  is \<^verbatim>\<open>assistant\<close> where the Turn's role is \<^verbatim>\<open>model\<close>, \<^verbatim>\<open>user\<close> where the Turn has
  no role or an empty one, and the Turn's own role in every other case. Where every
  Turn's role is \<^verbatim>\<open>user\<close>, \<^verbatim>\<open>model\<close> or absent, this is the role the specification
  words: \<^verbatim>\<open>assistant\<close> for \<^verbatim>\<open>model\<close> and \<^verbatim>\<open>user\<close> otherwise.
\<close>

theorem one_message_per_turn:
  "convertContentsToMessages (CArray turns) =
     map (\<lambda>t. \<lparr>m_role = passed_role (c_role t), m_content = turn_text t\<rparr>) turns \<and>
   length (convertContentsToMessages (CArray turns)) = length turns \<and>
   ((\<forall>t \<in> set turns. c_role t \<in> {None, Some ''user'', Some ''model''}) \<longrightarrow>
    convertContentsToMessages (CArray turns) =
      map (\<lambda>t. \<lparr>m_role = spec_role (c_role t), m_content = turn_text t\<rparr>) turns)"
  by (simp add: convertContentsToMessages_def content_to_message_eq passed_role_spec)

text \<open>
  The claim as it is stated gives \<^verbatim>\<open>user\<close> to every role other than \<^verbatim>\<open>model\<close>; a
  Turn with the role \<^verbatim>\<open>system\<close> keeps it.
\<close>

theorem role_passed_through_counterexample:
  "convertContentsToMessages
     (CArray [\<lparr>c_parts = Some [TextPart ''Be brief.''], c_role = Some ''system''\<rparr>]) =
     [\<lparr>m_role = ''system'', m_content = ''Be brief.''\<rparr>] \<and>
   spec_role (Some ''system'') = ''user''"
  by (simp add: convertContentsToMessages_def content_to_message_def message_role_def
        text_parts_def spec_role_def)

text \<open>Three Turns: a model Turn with a part without text, an empty Turn, a user Turn.\<close>

theorem one_message_per_turn_witness:
  "convertContentsToMessages (CArray example_turns) = example_messages \<and>
   length (convertContentsToMessages (CArray example_turns)) = 3 \<and>
   map (\<lambda>t. \<lparr>m_role = spec_role (c_role t), m_content = turn_text t\<rparr>) example_turns =
     example_messages"
proof -
  note t = one_message_per_turn [of example_turns]
  have roles: "\<forall>t \<in> set example_turns. c_role t \<in> {None, Some ''user'', Some ''model''}"
    by (simp add: example_turns_def)
  have m: "map (\<lambda>t. \<lparr>m_role = passed_role (c_role t), m_content = turn_text t\<rparr>) example_turns =
             example_messages"
    by (simp add: example_turns_def example_messages_def passed_role_def turn_text_def)
  from t [THEN conjunct1] m
  have c: "convertContentsToMessages (CArray example_turns) = example_messages"
    by (rule trans)
  from t [THEN conjunct2, THEN conjunct1]
  have l: "length (convertContentsToMessages (CArray example_turns)) = 3"
    by (simp add: example_turns_def)
  from t [THEN conjunct2, THEN conjunct2] roles
  have "convertContentsToMessages (CArray example_turns) =
      map (\<lambda>t. \<lparr>m_role = spec_role (c_role t), m_content = turn_text t\<rparr>) example_turns"
    by (rule mp)
  with c have s: "map (\<lambda>t. \<lparr>m_role = spec_role (c_role t), m_content = turn_text t\<rparr>) example_turns =
                    example_messages"
    by simp
  from c l s show ?thesis by (intro conjI)
qed

text \<open>
  C10. For a \<^verbatim>\<open>contents\<close> that is neither a string nor an array, such as one Turn
  outside any array, \<^verbatim>\<open>convertContentsToMessages\<close> returns the empty list; the body
  built from it, and the body of the one request that \<^verbatim>\<open>generateContent\<close> and
  \<^verbatim>\<open>generateContentStream\<close> send, has no messages; and \<^verbatim>\<open>countTokens\<close> counts 0,
  whatever text the value holds.
\<close>

theorem non_list_contents_give_no_messages:
  assumes "\<not> is_string cts" and "\<not> is_array cts"
  shows "convertContentsToMessages cts = [] \<and>
         b_messages (build_body g \<lparr>g_contents = cts, g_config = cfg\<rparr> stream) = [] \<and>
         map (\<lambda>rq. b_messages (body rq))
           (snd (generateContent g fetch parse \<lparr>g_contents = cts, g_config = cfg\<rparr>)) = [[]] \<and>
         map (\<lambda>rq. b_messages (body rq))
           (snd (generateContentStream g fetch parse h d0 \<lparr>g_contents = cts, g_config = cfg\<rparr>)) =
           [[]] \<and>
         countTokens \<lparr>ct_contents = cts\<rparr> = (Inr \<lparr>totalTokens = 0\<rparr>, [])"
proof -
  have m: "convertContentsToMessages cts = []"
    using assms by (cases cts) (simp_all add: convertContentsToMessages_def)
  have t: "count_text cts = []"
    using assms by (cases cts) (simp_all add: count_text_def)
  have b: "b_messages (build_body g \<lparr>g_contents = cts, g_config = cfg\<rparr> s) = []" for s
    by (simp add: build_body_def m)
  have g1: "map (\<lambda>rq. b_messages (body rq))
           (snd (generateContent g fetch parse \<lparr>g_contents = cts, g_config = cfg\<rparr>)) = [[]]"
    by (simp add: generateContent_def post_def b Let_def split: sum.splits option.splits)
  have g2: "map (\<lambda>rq. b_messages (body rq))
           (snd (generateContentStream g fetch parse h d0 \<lparr>g_contents = cts, g_config = cfg\<rparr>)) =
           [[]]"
    by (simp add: generateContentStream_def post_def b Let_def split: sum.splits option.splits)
  from m t b g1 g2 show ?thesis by (simp add: countTokens_def)
qed

text \<open>One Turn with the text \<^verbatim>\<open>hello\<close>, not in an array.\<close>

theorem non_list_contents_give_no_messages_witness:
  "\<not> is_string single_turn \<and> \<not> is_array single_turn \<and>
   all_text single_turn = ''hello'' \<and>
   convertContentsToMessages single_turn = [] \<and>
   map (\<lambda>rq. b_messages (body rq))
     (snd (generateContent (new_generator (\<lambda>n. None) ''key'') example_fetch known_parse
             \<lparr>g_contents = single_turn, g_config = None\<rparr>)) = [[]] \<and>
   countTokens \<lparr>ct_contents = single_turn\<rparr> = (Inr \<lparr>totalTokens = 0\<rparr>, [])"
proof -
  have s: "\<not> is_string single_turn" by (simp add: single_turn_def)
  have a: "\<not> is_array single_turn" by (simp add: single_turn_def)
  have t: "all_text single_turn = ''hello''" by (simp add: single_turn_def turn_text_def)
  note r = non_list_contents_give_no_messages [OF s a]
  from s a t r [THEN conjunct1]
    r [where parse = known_parse, THEN conjunct2, THEN conjunct2, THEN conjunct1]
    r [THEN conjunct2, THEN conjunct2, THEN conjunct2, THEN conjunct2]
  show ?thesis by (intro conjI)
qed

subsection \<open>Translating responses\<close>

text \<open>
  C3, as the code has it. For a JSON object whose \<^verbatim>\<open>choices\<close> is an array,
  \<^verbatim>\<open>convertOpenAIResponseToGemini\<close> returns a response whose text is the content of
  the first choice's message where that is truthy and the empty string where it is
  absent (no first choice, no message, no content) or otherwise falsy; its one candidate
  has that text as its one part, the role \<^verbatim>\<open>model\<close> and the first choice's
  \<^verbatim>\<open>finish_reason\<close> as it stands, \<^verbatim>\<open>undefined\<close> where it is absent; the object read
  is kept in \<^verbatim>\<open>data\<close>.
\<close>

theorem response_translation:
  assumes "map_of members ''choices'' = Some (JArr choices)"
  shows "convertOpenAIResponseToGemini (JObj members) =
           Inr \<lparr>candidates =
                  [\<lparr>cand_parts = [primary_text choices],
                    cand_role = ''model'',
                    finishReason = finish_reason choices,
                    cand_index = Some 0\<rparr>],
                r_text = primary_text choices,
                r_functionCalls = Some [],
                r_data = Some (JObj members)\<rparr>"
  using first_choice_array [OF assms]
  by (cases choices)
     (simp_all add: convertOpenAIResponseToGemini_def opt_member_lookup message_content_def
        finish_reason_def or_else_def primary_text_def Let_def)

text \<open>
  The claim as it is stated also gives the empty text to an object without
  \<^verbatim>\<open>choices\<close>; there \<^verbatim>\<open>data.choices[0]\<close> throws a TypeError and no response is
  returned.
\<close>

theorem response_translation_counterexample:
  "convertOpenAIResponseToGemini (JObj [(''error'', JStr ''overloaded'')]) = Inl TypeError"
  by (simp add: convertOpenAIResponseToGemini_def first_choice_def member_def)

text \<open>The response of the specification's example, and a response with no choice.\<close>

theorem response_translation_witness:
  "known_parse ok_body = Some ok_js \<and>
   convertOpenAIResponseToGemini ok_js =
     Inr \<lparr>candidates =
            [\<lparr>cand_parts = [JStr ''ok''], cand_role = ''model'',
              finishReason = JStr ''stop'', cand_index = Some 0\<rparr>],
          r_text = JStr ''ok'',
          r_functionCalls = Some [],
          r_data = Some ok_js\<rparr> \<and>
   convertOpenAIResponseToGemini (JObj [(''choices'', JArr [])]) =
     Inr \<lparr>candidates =
            [\<lparr>cand_parts = [JStr []], cand_role = ''model'',
              finishReason = JUndefined, cand_index = Some 0\<rparr>],
          r_text = JStr [],
          r_functionCalls = Some [],
          r_data = Some (JObj [(''choices'', JArr [])])\<rparr>"
proof -
  have p: "known_parse ok_body = Some ok_js"
    by (simp add: example_defs)
  have a: "map_of [(''choices'',
            JArr [JObj [(''message'', JObj [(''content'', JStr ''ok'')]),
                        (''finish_reason'', JStr ''stop'')]])] ''choices'' =
           Some (JArr [JObj [(''message'', JObj [(''content'', JStr ''ok'')]),
                        (''finish_reason'', JStr ''stop'')]])"
    by simp
  have b: "map_of [(''choices'', JArr [])] ''choices'' = Some (JArr [])"
    by simp
  from response_translation [OF a]
  have r1: "convertOpenAIResponseToGemini ok_js =
     Inr \<lparr>candidates =
            [\<lparr>cand_parts = [JStr ''ok''], cand_role = ''model'',
              finishReason = JStr ''stop'', cand_index = Some 0\<rparr>],
          r_text = JStr ''ok'',
          r_functionCalls = Some [],
          r_data = Some ok_js\<rparr>"
    by (simp add: ok_js_def message_content_def finish_reason_def primary_text_def)
  from response_translation [OF b]
  have r2: "convertOpenAIResponseToGemini (JObj [(''choices'', JArr [])]) =
     Inr \<lparr>candidates =
            [\<lparr>cand_parts = [JStr []], cand_role = ''model'',
              finishReason = JUndefined, cand_index = Some 0\<rparr>],
          r_text = JStr [],
          r_functionCalls = Some [],
          r_data = Some (JObj [(''choices'', JArr [])])\<rparr>"
    by (simp add: message_content_def finish_reason_def primary_text_def)
  from p r1 r2 show ?thesis by (intro conjI)
qed

subsection \<open>Counting tokens\<close>

text \<open>
  C7. For a string and for an array of Turns, \<^verbatim>\<open>countTokens\<close> resolves, with no
  \<^verbatim>\<open>fetch\<close> call made, to the ceiling of a quarter of the length of the text: the
  string itself, or the texts of all text parts of all Turns, in order. The length is
  the number of code units, as \<^verbatim>\<open>text.length\<close> counts. A text of length 10 gives 3
  and an empty text gives 0.
\<close>

theorem token_estimate:
  assumes "is_string cts \<or> is_array cts"
  shows "countTokens \<lparr>ct_contents = cts\<rparr> =
           (Inr \<lparr>totalTokens = nat \<lceil>(of_nat (length (all_text cts)) :: rat) / 4\<rceil>\<rparr>, []) \<and>
         nat \<lceil>(of_nat (length (all_text cts)) :: rat) / 4\<rceil> = (length (all_text cts) + 3) div 4 \<and>
         (length (all_text cts) = 10 \<longrightarrow>
            countTokens \<lparr>ct_contents = cts\<rparr> = (Inr \<lparr>totalTokens = 3\<rparr>, [])) \<and>
         (all_text cts = [] \<longrightarrow>
            countTokens \<lparr>ct_contents = cts\<rparr> = (Inr \<lparr>totalTokens = 0\<rparr>, []))"
  using count_text_all_text [OF assms]
  by (simp add: countTokens_def ceiling_quarter)

text \<open>Two Turns whose text parts hold ten characters, and the empty string.\<close>

theorem token_estimate_witness:
  "is_array (CArray [\<lparr>c_parts = Some [TextPart ''hello '', NonTextPart], c_role = Some ''user''\<rparr>,
                     \<lparr>c_parts = Some [TextPart ''woo'', TextPart ''t''], c_role = None\<rparr>]) \<and>
   length (all_text (CArray [\<lparr>c_parts = Some [TextPart ''hello '', NonTextPart], c_role = Some ''user''\<rparr>,
                     \<lparr>c_parts = Some [TextPart ''woo'', TextPart ''t''], c_role = None\<rparr>])) = 10 \<and>
   countTokens \<lparr>ct_contents =
       CArray [\<lparr>c_parts = Some [TextPart ''hello '', NonTextPart], c_role = Some ''user''\<rparr>,
               \<lparr>c_parts = Some [TextPart ''woo'', TextPart ''t''], c_role = None\<rparr>]\<rparr> =
     (Inr \<lparr>totalTokens = 3\<rparr>, []) \<and>
   is_string (CString []) \<and>
   countTokens \<lparr>ct_contents = CString []\<rparr> = (Inr \<lparr>totalTokens = 0\<rparr>, [])"
proof -
  have a: "is_array (CArray [\<lparr>c_parts = Some [TextPart ''hello '', NonTextPart], c_role = Some ''user''\<rparr>,
                     \<lparr>c_parts = Some [TextPart ''woo'', TextPart ''t''], c_role = None\<rparr>])"
    by simp
  have n: "length (all_text (CArray [\<lparr>c_parts = Some [TextPart ''hello '', NonTextPart], c_role = Some ''user''\<rparr>,
                     \<lparr>c_parts = Some [TextPart ''woo'', TextPart ''t''], c_role = None\<rparr>])) = 10"
    by (simp add: turn_text_def)
  from token_estimate [OF disjI2 [OF a], THEN conjunct2, THEN conjunct2, THEN conjunct1] n
  have c: "countTokens \<lparr>ct_contents =
       CArray [\<lparr>c_parts = Some [TextPart ''hello '', NonTextPart], c_role = Some ''user''\<rparr>,
               \<lparr>c_parts = Some [TextPart ''woo'', TextPart ''t''], c_role = None\<rparr>]\<rparr> =
     (Inr \<lparr>totalTokens = 3\<rparr>, [])"
    by (rule mp)
  have s: "is_string (CString [])" by simp
  have e: "all_text (CString []) = []" by simp
  from token_estimate [OF disjI1 [OF s], THEN conjunct2, THEN conjunct2, THEN conjunct2] e
  have z: "countTokens \<lparr>ct_contents = CString []\<rparr> = (Inr \<lparr>totalTokens = 0\<rparr>, [])"
    by (rule mp)
  from a n c s z show ?thesis by (intro conjI)
qed

subsection \<open>Embedding\<close>

text \<open>
  C8. \<^verbatim>\<open>embedContent\<close> rejects with its error, whose message says what is not
  supported, for every request; it makes no \<^verbatim>\<open>fetch\<close> call and never resolves.
\<close>

theorem embed_always_fails:
  "embedContent request = (Inl (Error ''Embed content not supported via OpenRouter yet.''), []) \<and>
   snd (embedContent request) = [] \<and>
   (\<forall>r. fst (embedContent request) \<noteq> Inr r)"
  by (simp add: embedContent_def)

text \<open>An embedding request for the text \<^verbatim>\<open>hello\<close>.\<close>

theorem embed_always_fails_witness:
  "(embedContent (CString ''hello'') :: response outcome) =
     (Inl (Error ''Embed content not supported via OpenRouter yet.''), []) \<and>
   snd (embedContent (CString ''hello'') :: response outcome) = []"
  by (intro conjI)
     (rule embed_always_fails [THEN conjunct1],
      rule embed_always_fails [THEN conjunct2, THEN conjunct1])

end
